theory Spec2Isabelle
  imports Main
begin

text \<open>
  A shallow embedding of the SAP GUI automation utilities: the session broker
  (\<open>get_sap_sessions\<close>, \<open>is_session_idle\<close>, \<open>connect_to_idle_sap\<close>), the positional
  label extractor (\<open>extract_text\<close>, \<open>extract_labels\<close>), the type-coercion and sentinel
  stages of the two preprocessors (\<open>preprocess_sap_label_data\<close>,
  \<open>preprocess_sap_alv_data\<close>) and the spreadsheet merger
  (\<open>update_excel_with_sap_data\<close>). Remote objects are records of what the code reads
  from them, a read that raises is \<open>None\<close>, and every \<open>try\<close>/\<open>except\<close> of the source is
  a branch of the model.
\<close>

section \<open>Python string operations used by the automation code\<close>

text \<open>
  Identifiers, transaction codes and cell texts are ASCII strings. \<open>str.strip()\<close> without
  an argument removes the ASCII whitespace characters (tab, line feed, vertical tab, form
  feed, carriage return, the four separators 0x1C..0x1F and the blank) from both ends.
\<close>

definition is_space :: "char \<Rightarrow> bool" where
  "is_space c = (c \<in> set [CHR 0x09, CHR 0x0A, CHR 0x0B, CHR 0x0C, CHR 0x0D,
                            CHR 0x1C, CHR 0x1D, CHR 0x1E, CHR 0x1F, CHR '' ''])"

definition strip_chars :: "(char \<Rightarrow> bool) \<Rightarrow> string \<Rightarrow> string" where
  "strip_chars p s = rev (dropWhile p (rev (dropWhile p s)))"

definition strip :: "string \<Rightarrow> string" where
  "strip s = strip_chars is_space s"

text \<open>\<open>str.lower()\<close> on ASCII text.\<close>

definition lower_char :: "char \<Rightarrow> char" where
  "lower_char c =
     (case map_of (zip ''ABCDEFGHIJKLMNOPQRSTUVWXYZ'' ''abcdefghijklmnopqrstuvwxyz'') c of
        Some l \<Rightarrow> l | None \<Rightarrow> c)"

definition lower :: "string \<Rightarrow> string" where
  "lower s = map lower_char s"

text \<open>\<open>sub in s\<close>: the substring test.\<close>

fun contains :: "string \<Rightarrow> string \<Rightarrow> bool" where
  "contains sub [] = (sub = [])"
| "contains sub (x # xs) = (take (length sub) (x # xs) = sub \<or> contains sub xs)"

text \<open>
  \<open>s.split(sep)\<close> for a one-character separator: the result is never empty, and has one
  more part than \<open>s\<close> has separators.
\<close>

fun split_on :: "char \<Rightarrow> string \<Rightarrow> string list" where
  "split_on sep [] = [[]]"
| "split_on sep (x # xs) =
     (if x = sep then [] # split_on sep xs
      else (case split_on sep xs of
              [] \<Rightarrow> [[x]]
            | p # ps \<Rightarrow> (x # p) # ps))"

text \<open>
  \<open>int(s)\<close> on ASCII text: surrounding whitespace is ignored, one sign is allowed, and the
  digits may be grouped by single underscores. \<open>None\<close> stands for the \<open>ValueError\<close>.
\<close>

definition digit_of :: "char \<Rightarrow> nat option" where
  "digit_of c = map_of (zip ''0123456789'' [0, 1, 2, 3, 4, 5, 6, 7, 8, 9]) c"

fun digits_after :: "string \<Rightarrow> nat \<Rightarrow> nat option" where
  "digits_after [] acc = Some acc"
| "digits_after (c # cs) acc =
     (if c = CHR ''_'' then
        (case cs of
           [] \<Rightarrow> None
         | d # ds \<Rightarrow> (case digit_of d of
                        None \<Rightarrow> None
                      | Some v \<Rightarrow> digits_after ds (acc * 10 + v)))
      else (case digit_of c of
              None \<Rightarrow> None
            | Some v \<Rightarrow> digits_after cs (acc * 10 + v)))"

definition unsigned :: "string \<Rightarrow> nat option" where
  "unsigned s =
     (case s of
        [] \<Rightarrow> None
      | d # ds \<Rightarrow> (case digit_of d of None \<Rightarrow> None | Some v \<Rightarrow> digits_after ds v))"

definition py_int :: "string \<Rightarrow> int option" where
  "py_int s =
     (case strip s of
        [] \<Rightarrow> None
      | c # cs \<Rightarrow>
          if c = CHR ''-'' then map_option (\<lambda>n. - int n) (unsigned cs)
          else if c = CHR ''+'' then map_option int (unsigned cs)
          else map_option int (unsigned (c # cs)))"

section \<open>Session broker (utils/sap\_connection.py)\<close>

text \<open>
  A UI element of the remote tree: its identifier and the five text-like attributes that
  \<open>extract_text\<close> probes. \<open>None\<close> means the attribute is absent or reading it fails.
\<close>

record element =
  Id :: string
  Text :: "string option"
  Tooltip :: "string option"
  Value :: "string option"
  Caption :: "string option"
  Description :: "string option"

text \<open>
  A remote session. \<open>sid\<close> identifies the object. The three \<open>Info\<close> attributes are \<open>None\<close>
  when reading them raises. \<open>usr_area\<close> holds the children of \<open>wnd[0]/usr\<close>, or \<open>None\<close>
  when \<open>findById\<close> raises.
\<close>

record session =
  sid :: nat
  Transaction :: "string option"
  SystemName :: "string option"
  User :: "string option"
  usr_area :: "element list option"

text \<open>
  What \<open>win32com.client.GetObject("SAPGUI")\<close> and the scripting engine give: the lookup
  raises, the automation object is falsy, the engine is falsy, or the engine lists its
  connections. A connection is the list of its sessions, or \<open>None\<close> when reading its
  children raises.
\<close>

type_synonym connection = "session list option"

datatype host =
    GetObject_raises
  | SapGuiAuto_missing
  | Engine_missing
  | Engine "connection list"

text \<open>The loop of \<open>get_sap_sessions\<close>; \<open>None\<close> when an access inside it raises.\<close>

fun first_sessions :: "connection list \<Rightarrow> session list option" where
  "first_sessions [] = Some []"
| "first_sessions (None # cs) = None"
| "first_sessions (Some ss # cs) =
     (case first_sessions cs of
        None \<Rightarrow> None
      | Some sessions \<Rightarrow>
          (case ss of
             [] \<Rightarrow> Some sessions
           | s0 # _ \<Rightarrow> Some (s0 # sessions)))"

definition get_sap_sessions :: "host \<Rightarrow> session list" where
  "get_sap_sessions h =
     (case h of
        GetObject_raises \<Rightarrow> []
      | SapGuiAuto_missing \<Rightarrow> []
      | Engine_missing \<Rightarrow> []
      | Engine conns \<Rightarrow>
          if length conns = 0 then []
          else (case first_sessions conns of None \<Rightarrow> [] | Some sessions \<Rightarrow> sessions))"

definition idle_codes :: "string list" where
  "idle_codes = [''SESSION_MANAGER'', ''SMEN'', ''S000'']"

text \<open>
  \<open>is_session_idle\<close> reads the transaction code, the system name and the user inside one
  \<open>try\<close>; a fault in any of the three reads gives \<open>False\<close>.
\<close>

definition is_session_idle :: "session \<Rightarrow> bool" where
  "is_session_idle s =
     (case Transaction s of
        None \<Rightarrow> False
      | Some transaction_code \<Rightarrow>
          (case SystemName s of
             None \<Rightarrow> False
           | Some system_name \<Rightarrow>
               (case User s of
                  None \<Rightarrow> False
                | Some user \<Rightarrow>
                    if transaction_code = [] \<or> strip transaction_code \<in> set idle_codes
                    then True else False)))"

text \<open>
  The observable effects of \<open>connect_to_idle_sap\<close>, in order: listing the sessions, the
  idle check of one session, bringing one session to the front, calling the launcher, and
  sleeping for a number of seconds.
\<close>

datatype event = ListSessions | CheckIdle nat | BringToFront nat | Launch | Sleep nat

datatype fault = AttributeFault

text \<open>
  The selection loop: the first idle session is brought to the front and returned. The two
  attribute reads after the idle check are not guarded by the loop itself, so a fault there
  leaves the loop as an exception (\<open>Inl\<close>).
\<close>

fun select_idle :: "session list \<Rightarrow> event list \<times> (fault + session option)" where
  "select_idle [] = ([], Inr None)"
| "select_idle (s # ss) =
     (if is_session_idle s then
        (case User s of
           None \<Rightarrow> ([CheckIdle (sid s)], Inl AttributeFault)
         | Some user \<Rightarrow>
             (case SystemName s of
                None \<Rightarrow> ([CheckIdle (sid s)], Inl AttributeFault)
              | Some system_name \<Rightarrow> ([CheckIdle (sid s), BringToFront (sid s)], Inr (Some s))))
      else (case select_idle ss of (evs, r) \<Rightarrow> (CheckIdle (sid s) # evs, r)))"

text \<open>
  The environment of one call: the host application at the first listing, what
  \<open>launch_sap()\<close> does (\<open>None\<close>: it raises), and the host application at the second listing.
\<close>

record env =
  host1 :: host
  launch_sap :: "bool option"
  host2 :: host

definition connect_to_idle_sap :: "env \<Rightarrow> event list \<times> (fault + session option)" where
  "connect_to_idle_sap e =
     (let sessions = get_sap_sessions (host1 e);
          (evs1, r1) = (if sessions \<noteq> [] then select_idle sessions else ([], Inr None))
      in case r1 of
           Inl f \<Rightarrow> (ListSessions # evs1, Inl f)
         | Inr (Some s) \<Rightarrow> (ListSessions # evs1, Inr (Some s))
         | Inr None \<Rightarrow>
             (case launch_sap e of
                None \<Rightarrow> (ListSessions # evs1 @ [Launch], Inr None)
              | Some False \<Rightarrow> (ListSessions # evs1 @ [Launch], Inr None)
              | Some True \<Rightarrow>
                  (let sessions2 = get_sap_sessions (host2 e);
                       (evs2, r2) = select_idle sessions2
                   in (ListSessions # evs1 @ [Launch, Sleep 5, ListSessions] @ evs2,
                       case r2 of Inl f \<Rightarrow> Inr None | Inr r \<Rightarrow> Inr r))))"

section \<open>Positional label extractor (utils/sap\_labels\_table\_extractor.py)\<close>

text \<open>
  \<open>extract_text\<close> probes the attributes in a fixed order and returns the first stripped
  value that is not empty; an absent or faulty attribute is skipped.
\<close>

fun first_text :: "string option list \<Rightarrow> string" where
  "first_text [] = ''<No Text Found>''"
| "first_text (None # attrs) = first_text attrs"
| "first_text (Some v # attrs) =
     (let value = strip v in if value \<noteq> [] then value else first_text attrs)"

definition extract_text :: "element \<Rightarrow> string" where
  "extract_text el = first_text [Text el, Tooltip el, Value el, Caption el, Description el]"

datatype py_error = ValueError | TypeError

text \<open>One harvested label: the dictionary with the keys \<open>Row\<close>, \<open>Column\<close> and \<open>Text\<close>.\<close>

record LabelCell =
  Row :: int
  Column :: int
  cell_Text :: string

text \<open>
  The coordinates of a label identifier: the text after the last \<open>[\<close> is split at the
  commas; exactly two parts are read as column and row with \<open>int\<close>, which raises on text
  that is not a number; any other number of parts gives the sentinel pair.
  The result is \<open>(row_number, col_number)\<close>.
\<close>

definition coordinates :: "string \<Rightarrow> py_error + (int \<times> int)" where
  "coordinates label_id =
     (let parts = split_on CHR '','' (last (split_on CHR ''['' label_id))
      in if length parts = 2 then
           (case py_int (parts ! 0) of
              None \<Rightarrow> Inl ValueError
            | Some col_number \<Rightarrow>
                (case py_int (strip_chars (\<lambda>c. c = CHR '']'') (parts ! 1)) of
                   None \<Rightarrow> Inl ValueError
                 | Some row_number \<Rightarrow> Inr (row_number, col_number)))
         else Inr (- 1, - 1))"

text \<open>
  The harvesting loop over the children of the user area. An exception raised for one
  child leaves the loop; the cells collected so far are lost with it.
\<close>

fun harvest :: "element list \<Rightarrow> py_error + LabelCell list" where
  "harvest [] = Inr []"
| "harvest (child # rest) =
     (if contains ''lbl'' (Id child) then
        (let text = extract_text child
         in if text \<noteq> [] \<and> text \<noteq> ''<No Text Found>'' then
              (case coordinates (Id child) of
                 Inl err \<Rightarrow> Inl err
               | Inr (row_number, col_number) \<Rightarrow>
                   (case harvest rest of
                      Inl err \<Rightarrow> Inl err
                    | Inr label_data \<Rightarrow>
                        Inr (\<lparr>Row = row_number, Column = col_number, cell_Text = text\<rparr>
                               # label_data)))
            else harvest rest)
      else harvest rest)"

text \<open>
  The pivoted table: the sorted column labels, and one entry per row label, in ascending
  order, with one optional text per column label (\<open>None\<close> is the missing value).

  \<open>DataFrame.pivot(index, columns, values)\<close> raises \<open>ValueError\<close> (Index contains
  duplicate entries, cannot reshape) when two entries have the same index and column
  labels.
\<close>

record pivoted =
  pcolumns :: "int list"
  prows :: "(int \<times> string option list) list"

definition coord :: "LabelCell \<Rightarrow> int \<times> int" where
  "coord c = (Row c, Column c)"

definition pivot :: "LabelCell list \<Rightarrow> py_error + pivoted" where
  "pivot df =
     (if \<not> distinct (map coord df) then Inl ValueError
      else
        (let cols = sort (remdups (map Column df));
             rws = sort (remdups (map Row df))
         in Inr \<lparr>pcolumns = cols,
                 prows = map (\<lambda>r. (r, map (\<lambda>c. map_option cell_Text
                                                (find (\<lambda>x. coord x = (r, c)) df)) cols)) rws\<rparr>))"

datatype log = Info string | Warning string | Error string

text \<open>
  \<open>extract_labels\<close> returns the log lines it wrote and the Python result: \<open>None\<close>, or the
  pivoted table. Every exception inside the function is caught, logged as an error and
  turned into \<open>None\<close>.
\<close>

definition extract_labels :: "session \<Rightarrow> log list \<times> pivoted option" where
  "extract_labels s =
     (case usr_area s of
        None \<Rightarrow> ([Error ''Error extracting labels''], None)
      | Some children \<Rightarrow>
          (case harvest children of
             Inl err \<Rightarrow> ([Error ''Error extracting labels''], None)
           | Inr label_data \<Rightarrow>
               if label_data = [] then ([Warning ''No labels found.''], None)
               else (case pivot label_data of
                       Inl err \<Rightarrow> ([Error ''Error extracting labels''], None)
                     | Inr df_pivoted \<Rightarrow>
                         ([Info ''Successfully extracted labels.''], Some df_pivoted))))"

section \<open>Tables (pandas data frames)\<close>

text \<open>
  A cell is a missing value (\<open>NaN\<close>, \<open>None\<close>, \<open>pd.NA\<close>), the missing timestamp \<open>NaT\<close>, a
  text, an integer, a floating-point number or a calendar date (\<open>datetime.date\<close>: year,
  month, day). A floating-point number is kept as its mantissa and binary exponent; no
  arithmetic on it is modelled.
\<close>

datatype double = Double int int

datatype cell = Null | NaT | Str string | Num int | Flt double | Day nat nat nat

text \<open>
  The dtypes that the columns of this pipeline have: \<open>object\<close>, the nullable integer
  \<open>Int64\<close> (the \<open>int\<close> target type), \<open>float64\<close> (the \<open>float\<close> target type) and numpy's
  \<open>int64\<close> (what \<open>pd.to_numeric\<close> gives for whole numbers).
\<close>

datatype dtype = Object | Nullable_Int64 | Float64 | Numpy_int64

record column =
  cname :: string
  dtype :: dtype
  cells :: "cell list"

text \<open>
  A frame is the list of its columns, in order; row \<open>i\<close> is the \<open>i\<close>-th cell of every
  column. The frames of this pipeline have distinct column labels and columns of one
  length, and after \<open>reset_index(drop=True)\<close> the row labels are the positions.
\<close>

type_synonym frame = "column list"


definition nrows :: "frame \<Rightarrow> nat" where
  "nrows df = (case df of [] \<Rightarrow> 0 | c # _ \<Rightarrow> length (cells c))"

definition empty_frame :: "frame \<Rightarrow> bool" where
  "empty_frame df = (df = [] \<or> nrows df = 0)"

definition get_col :: "frame \<Rightarrow> string \<Rightarrow> column option" where
  "get_col df name = find (\<lambda>c. cname c = name) df"

text \<open>\<open>df[name] = col\<close> for a label that the frame has: the values change, the label stays.\<close>

definition set_col :: "frame \<Rightarrow> string \<Rightarrow> column \<Rightarrow> frame" where
  "set_col df name col = map (\<lambda>c. if cname c = name then col\<lparr>cname := name\<rparr> else c) df"

text \<open>\<open>df.at[i, name]\<close> for a label that the frame has.\<close>

definition at :: "frame \<Rightarrow> nat \<Rightarrow> string \<Rightarrow> cell" where
  "at df i name = (case get_col df name of None \<Rightarrow> Null | Some c \<Rightarrow> cells c ! i)"

text \<open>
  \<open>df.at[i, name] = s\<close> for a text \<open>s\<close> and a label that the frame has. The outcome
  depends on the dtype of the column: a nullable integer column refuses a text with a
  \<open>TypeError\<close>; a \<open>float64\<close> or \<open>int64\<close> column takes it and becomes an \<open>object\<close> column;
  an \<open>object\<close> column takes it as it is.
\<close>

definition set_text :: "frame \<Rightarrow> nat \<Rightarrow> string \<Rightarrow> string \<Rightarrow> py_error + frame" where
  "set_text df i name s =
     (if list_ex (\<lambda>c. cname c = name \<and> dtype c = Nullable_Int64) df then Inl TypeError
      else Inr (map (\<lambda>c. if cname c = name
                          then c\<lparr>dtype := Object, cells := (cells c)[i := Str s]\<rparr>
                          else c) df))"

definition isna :: "cell \<Rightarrow> bool" where
  "isna v = (v = Null \<or> v = NaT)"

definition fillna :: "cell \<Rightarrow> column \<Rightarrow> column" where
  "fillna v col = col\<lparr>cells := map (\<lambda>c. if isna c then v else c) (cells col)\<rparr>"

text \<open>
  A timestamp (\<open>pd.Timestamp\<close>) down to the second; \<open>normalize\<close> sets the time of day to
  midnight, and \<open>strftime('%m/%d/%Y')\<close> prints month and day on two digits and the year on
  four (a timestamp's year has four digits).
\<close>

record timestamp =
  year :: nat
  month :: nat
  day :: nat
  hour :: nat
  minute :: nat
  second :: nat

definition normalize :: "timestamp \<Rightarrow> timestamp" where
  "normalize ts = ts\<lparr>hour := 0, minute := 0, second := 0\<rparr>"

definition digit_char :: "nat \<Rightarrow> char" where
  "digit_char n = ''0123456789'' ! (n mod 10)"

definition strftime_mdY :: "timestamp \<Rightarrow> string" where
  "strftime_mdY ts =
     [digit_char (month ts div 10), digit_char (month ts)] @ ''/''
     @ [digit_char (day ts div 10), digit_char (day ts)] @ ''/''
     @ [digit_char (year ts div 1000), digit_char (year ts div 100),
        digit_char (year ts div 10), digit_char (year ts)]"

text \<open>
  The pandas operations that the code calls and that are not modelled here are parameters:
  \<^item> \<open>parse_datetime\<close>: \<open>pd.to_datetime(series, errors='coerce')\<close> on the values of a
    whole column, with \<open>None\<close> for a value it does not read (\<open>NaT\<close>). The column is read
    as a whole: what the library answers for one value may depend on the other values
    of the column (it settles on one format for the column);
  \<^item> \<open>astype_str\<close>: \<open>str\<close> of a value that is neither missing nor a text;
  \<^item> \<open>float_default\<close>: the numeric default of a column, \<open>float\<close> of its configured fill
    value, and zero when there is none or it is not a number;
  \<^item> \<open>int_label\<close>, \<open>float_label\<close>: the guarded numeric conversions of the label variant,
    from the default and the column to the column they leave and their log lines;
  \<^item> \<open>int_alv\<close>, \<open>float_alv\<close>: the unguarded numeric conversions of the ALV variant,
    which may raise;
  \<^item> \<open>to_numeric\<close>: \<open>pd.to_numeric\<close> on one value, \<open>None\<close> for a value that is not a
    number.
\<close>

record pandas =
  parse_datetime :: "cell list \<Rightarrow> timestamp option list"
  astype_str :: "cell \<Rightarrow> string"
  float_default :: "cell option \<Rightarrow> cell"
  int_label :: "cell \<Rightarrow> column \<Rightarrow> column \<times> log list"
  float_label :: "cell \<Rightarrow> column \<Rightarrow> column \<times> log list"
  int_alv :: "column \<Rightarrow> py_error + column"
  float_alv :: "column \<Rightarrow> py_error + column"
  to_numeric :: "cell \<Rightarrow> cell option"

text \<open>
  \<open>pd.to_datetime(series, errors='coerce')\<close>: the answer is a series over the index of
  its argument, one timestamp or \<open>NaT\<close> per row.
\<close>

definition to_datetime :: "pandas \<Rightarrow> cell list \<Rightarrow> timestamp option list" where
  "to_datetime lib series =
     (let answer = parse_datetime lib series
      in map (\<lambda>i. if i < length answer then answer ! i else None) [0 ..< length series])"

definition to_str :: "pandas \<Rightarrow> cell \<Rightarrow> string" where
  "to_str lib c =
     (case c of Str s \<Rightarrow> s | Null \<Rightarrow> ''nan'' | NaT \<Rightarrow> ''NaT'' | _ \<Rightarrow> astype_str lib c)"

definition quoted :: "string \<Rightarrow> string" where
  "quoted s = CHR 0x27 # s @ [CHR 0x27]"

definition unsupported_msg :: "string \<Rightarrow> string \<Rightarrow> string" where
  "unsupported_msg desired_type col =
     ''Unsupported data type '' @ quoted desired_type @ '' for column '' @ quoted col
     @ ''. No conversion applied.''"

definition missing_msg :: "string \<Rightarrow> string" where
  "missing_msg col = ''Data type conversion rule specified for missing column: '' @ col"

definition converted_msg :: "string \<Rightarrow> string \<Rightarrow> string" where
  "converted_msg col what = ''Converted column '' @ quoted col @ '' to '' @ what"

section \<open>Table preprocessor: type coercion and trailing sentinel\<close>

type_synonym fill_rules = "(string \<times> cell) list option"

type_synonym dtype_rules = "(string \<times> string) list option"

subsection \<open>The ALV variant (utils/sap\_alv\_preprocess.py), stage 4\<close>

text \<open>
  Stage 4 of \<open>preprocess_sap_alv_data\<close>, the variant without the de-duplication stage.
  Nothing in this stage is guarded: an exception of a numeric conversion leaves the
  function.
\<close>

definition date_alv :: "pandas \<Rightarrow> column \<Rightarrow> column" where
  "date_alv lib col =
     (let dt_series = map (map_option normalize) (to_datetime lib (cells col))
      in col\<lparr>dtype := Object,
             cells := map (\<lambda>t. case t of
                                  None \<Rightarrow> Null
                                | Some ts \<Rightarrow> Str (strftime_mdY ts)) dt_series\<rparr>)"

definition str_alv :: "pandas \<Rightarrow> column \<Rightarrow> column" where
  "str_alv lib col = col\<lparr>dtype := Object, cells := map (\<lambda>c. Str (to_str lib c)) (cells col)\<rparr>"

text \<open>One pass of the loop body for a column that the frame has.\<close>

definition coerce_alv :: "pandas \<Rightarrow> string \<Rightarrow> column \<Rightarrow> py_error + (column \<times> log list)" where
  "coerce_alv lib ty col =
     (let desired_type = lower ty
      in if desired_type = ''date'' then
           Inr (date_alv lib col, [Info (converted_msg (cname col) ''date format MM/DD/YYYY.'')])
         else if desired_type = ''int'' then
           (case int_alv lib col of
              Inl err \<Rightarrow> Inl err
            | Inr col' \<Rightarrow> Inr (col', [Info (converted_msg (cname col) ''integer (Int64).'')]))
         else if desired_type = ''float'' then
           (case float_alv lib col of
              Inl err \<Rightarrow> Inl err
            | Inr col' \<Rightarrow> Inr (col', [Info (converted_msg (cname col) ''float.'')]))
         else if desired_type = ''str'' then
           Inr (str_alv lib col, [Info (converted_msg (cname col) ''string.'')])
         else Inr (col, [Warning (unsupported_msg desired_type (cname col))]))"

fun alv_dtype_loop ::
  "pandas \<Rightarrow> (string \<times> string) list \<Rightarrow> frame \<Rightarrow> log list \<Rightarrow> py_error + (frame \<times> log list)" where
  "alv_dtype_loop lib [] df lg = Inr (df, lg)"
| "alv_dtype_loop lib ((col, ty) # items) df lg =
     (case get_col df col of
        None \<Rightarrow> alv_dtype_loop lib items df (lg @ [Warning (missing_msg col)])
      | Some c \<Rightarrow>
          (case coerce_alv lib ty c of
             Inl err \<Rightarrow> Inl err
           | Inr (c', l) \<Rightarrow> alv_dtype_loop lib items (set_col df col c') (lg @ l)))"

definition alv_dtype_stage :: "pandas \<Rightarrow> dtype_rules \<Rightarrow> frame \<Rightarrow> py_error + (frame \<times> log list)" where
  "alv_dtype_stage lib dtype_mapping df =
     (case dtype_mapping of
        None \<Rightarrow> Inr (df, [])
      | Some items \<Rightarrow> alv_dtype_loop lib items df [])"

subsection \<open>The label variant (utils/sap\_labels\_table\_preprocess.py), stage 4\<close>

text \<open>Stage 4 of \<open>preprocess_sap_label_data\<close>, the variant with the de-duplication stage.\<close>

definition bad_values :: "string list" where
  "bad_values = ['''', ''nan'', ''NaN'', ''None'', ''null'']"

text \<open>
  The series that the label variant hands to \<open>pd.to_datetime\<close>: every value as stripped
  text, with the listed bad values replaced by the missing value.
\<close>

definition clean_dates :: "pandas \<Rightarrow> cell list \<Rightarrow> cell list" where
  "clean_dates lib series =
     (let stripped = map (\<lambda>c. Str (strip (to_str lib c))) series;
          replaced = map (\<lambda>c. if c \<in> set (map Str bad_values) then Null else c) stripped
      in replaced)"

definition date_label :: "pandas \<Rightarrow> column \<Rightarrow> column" where
  "date_label lib col =
     (let dt_series = map (map_option normalize) (to_datetime lib (clean_dates lib (cells col)))
      in col\<lparr>dtype := Object,
             cells := map (\<lambda>t. case t of
                                  None \<Rightarrow> Str ''''
                                | Some ts \<Rightarrow> Str (strftime_mdY ts)) dt_series\<rparr>)"

definition str_label :: "pandas \<Rightarrow> column \<Rightarrow> column" where
  "str_label lib col =
     col\<lparr>dtype := Object,
         cells := map (\<lambda>c. let s = strip (to_str lib c) in if s = ''nan'' then Str '''' else Str s)
                    (cells col)\<rparr>"

definition fill_value :: "fill_rules \<Rightarrow> string \<Rightarrow> cell option" where
  "fill_value missing_value_fill col =
     (case missing_value_fill of None \<Rightarrow> None | Some rules \<Rightarrow> map_of rules col)"

text \<open>
  One pass of the loop body for a column that the frame has: the default is chosen, the
  missing values of the column are filled with it, and then the branch of the target type
  runs. The chain of branches has no final \<open>else\<close>.
\<close>

definition coerce_label :: "pandas \<Rightarrow> fill_rules \<Rightarrow> string \<Rightarrow> column \<Rightarrow> column \<times> log list" where
  "coerce_label lib missing_value_fill ty col =
     (let desired_type = lower ty;
          default_val =
            (if desired_type \<in> set [''int'', ''float'']
             then float_default lib (fill_value missing_value_fill (cname col))
             else (case fill_value missing_value_fill (cname col) of
                     None \<Rightarrow> Str '''' | Some v \<Rightarrow> v));
          filled = fillna default_val col
      in if desired_type = ''date'' then
           (date_label lib filled, [Info (converted_msg (cname col) ''date format MM/DD/YYYY.'')])
         else if desired_type = ''int'' then int_label lib default_val filled
         else if desired_type = ''float'' then float_label lib default_val filled
         else if desired_type = ''str'' then
           (str_label lib filled, [Info (converted_msg (cname col) ''string.'')])
         else (filled, []))"

fun label_dtype_loop ::
  "pandas \<Rightarrow> fill_rules \<Rightarrow> (string \<times> string) list \<Rightarrow> frame \<Rightarrow> log list \<Rightarrow> frame \<times> log list" where
  "label_dtype_loop lib mvf [] df lg = (df, lg)"
| "label_dtype_loop lib mvf ((col, ty) # items) df lg =
     (case get_col df col of
        None \<Rightarrow> label_dtype_loop lib mvf items df (lg @ [Warning (missing_msg col)])
      | Some c \<Rightarrow>
          (case coerce_label lib mvf ty c of
             (c', l) \<Rightarrow> label_dtype_loop lib mvf items (set_col df col c') (lg @ l)))"

text \<open>
  The \<open>else\<close> that logs the unsupported type is aligned with the \<open>for\<close>: it runs once,
  when the loop is over, with the loop variables of the last pass (\<open>desired_type\<close> is
  lowered only in a pass that went past the missing-column check).
\<close>

definition label_dtype_stage :: "pandas \<Rightarrow> fill_rules \<Rightarrow> dtype_rules \<Rightarrow> frame \<Rightarrow> frame \<times> log list" where
  "label_dtype_stage lib mvf dtype_mapping df =
     (case dtype_mapping of
        None \<Rightarrow> (df, [])
      | Some [] \<Rightarrow> (df, [])
      | Some items \<Rightarrow>
          (case label_dtype_loop lib mvf items df [] of
             (df', lg) \<Rightarrow>
               (let (col, ty) = last items;
                    desired_type = (if get_col df col = None then ty else lower ty)
                in (df', lg @ [Warning (unsupported_msg desired_type col)]))))"

subsection \<open>Stage 8 of both variants: the trailing sentinel\<close>

text \<open>
  The stage is not guarded: an exception of the assignment leaves the function, and no
  table is returned.
\<close>

definition total_sentinel :: "string option \<Rightarrow> frame \<Rightarrow> py_error + frame" where
  "total_sentinel date_col processed_df =
     (case date_col of
        None \<Rightarrow> Inr processed_df
      | Some dc \<Rightarrow>
          if \<not> empty_frame processed_df \<and> dc \<in> set (map cname processed_df) then
            (let last_idx = nrows processed_df - 1;
                 last_val = at processed_df last_idx dc
             in if isna last_val \<or> last_val = Str '''' then set_text processed_df last_idx dc ''Total''
                else Inr processed_df)
          else Inr processed_df)"

subsection \<open>A sample library\<close>

text \<open>
  A sample of the library for concrete runs. It knows two date formats, ISO
  (\<open>YYYY-MM-DD\<close>) and US (\<open>MM/DD/YYYY\<close>): the first value of a column that is not missing
  settles the format, and every value of the column is read in that format. It reads
  whole numbers, and leaves the numeric conversions of the preprocessor as the identity.
\<close>

definition digits :: "string \<Rightarrow> nat option" where
  "digits s =
     (if s \<noteq> [] \<and> list_all (\<lambda>c. digit_of c \<noteq> None) s
      then Some (foldl (\<lambda>a c. a * 10 + the (digit_of c)) 0 s) else None)"

definition days_in_month :: "nat \<Rightarrow> nat \<Rightarrow> nat" where
  "days_in_month y m =
     (if m = 2 then (if y mod 4 = 0 \<and> (y mod 100 \<noteq> 0 \<or> y mod 400 = 0) then 29 else 28)
      else if m \<in> set [4, 6, 9, 11] then 30 else 31)"

definition calendar_day :: "nat option \<Rightarrow> nat option \<Rightarrow> nat option \<Rightarrow> timestamp option" where
  "calendar_day yo mo do' =
     (case yo of
        None \<Rightarrow> None
      | Some y \<Rightarrow>
          (case mo of
             None \<Rightarrow> None
           | Some m \<Rightarrow>
               (case do' of
                  None \<Rightarrow> None
                | Some d \<Rightarrow>
                    if 1 \<le> m \<and> m \<le> 12 \<and> 1 \<le> d \<and> d \<le> days_in_month y m
                    then Some \<lparr>year = y, month = m, day = d, hour = 0, minute = 0, second = 0\<rparr>
                    else None)))"

definition iso_date :: "string \<Rightarrow> timestamp option" where
  "iso_date s =
     (if length s = 10 \<and> s ! 4 = CHR ''-'' \<and> s ! 7 = CHR ''-''
      then calendar_day (digits (take 4 s)) (digits (take 2 (drop 5 s))) (digits (drop 8 s))
      else None)"

definition us_date :: "string \<Rightarrow> timestamp option" where
  "us_date s =
     (if length s = 10 \<and> s ! 2 = CHR ''/'' \<and> s ! 5 = CHR ''/''
      then calendar_day (digits (drop 6 s)) (digits (take 2 s)) (digits (take 2 (drop 3 s)))
      else None)"

datatype date_format = ISO_format | US_format

definition guess_format :: "string \<Rightarrow> date_format option" where
  "guess_format s =
     (if iso_date s \<noteq> None then Some ISO_format
      else if us_date s \<noteq> None then Some US_format else None)"

definition read_date :: "date_format \<Rightarrow> cell \<Rightarrow> timestamp option" where
  "read_date fmt c =
     (case c of
        Str s \<Rightarrow> (case fmt of ISO_format \<Rightarrow> iso_date s | US_format \<Rightarrow> us_date s)
      | _ \<Rightarrow> None)"

definition sample_to_datetime :: "cell list \<Rightarrow> timestamp option list" where
  "sample_to_datetime series =
     (case find (\<lambda>c. \<not> isna c) series of
        Some (Str s) \<Rightarrow>
          (case guess_format s of
             None \<Rightarrow> map (\<lambda>c. None) series
           | Some fmt \<Rightarrow> map (read_date fmt) series)
      | _ \<Rightarrow> map (\<lambda>c. None) series)"

definition sample_lib :: pandas where
  "sample_lib =
     \<lparr>parse_datetime = sample_to_datetime,
      astype_str = (\<lambda>c. ''?''),
      float_default = (\<lambda>v. Num 0),
      int_label = (\<lambda>d col. (col, [])),
      float_label = (\<lambda>d col. (col, [])),
      int_alv = (\<lambda>col. Inr col),
      float_alv = (\<lambda>col. Inr col),
      to_numeric = (\<lambda>c. case c of
                          Str s \<Rightarrow> map_option Num (py_int s)
                        | Null \<Rightarrow> Some Null
                        | NaT \<Rightarrow> None
                        | Num n \<Rightarrow> Some (Num n)
                        | Flt f \<Rightarrow> Some (Flt f)
                        | Day y m d \<Rightarrow> None)\<rparr>"

section \<open>Spreadsheet merger (utils/update\_excel\_sheet.py)\<close>

text \<open>
  The caller and the merger share data frames by reference: the store maps a reference to
  the frame it holds now.
\<close>

type_synonym store = "nat \<Rightarrow> frame"

text \<open>
  \<open>pd.to_numeric(col, errors='ignore')\<close>: all values convert, or the column is returned
  as it is. The converted column is \<open>int64\<close> when every value is a whole number and
  \<open>float64\<close> otherwise.
\<close>

definition to_numeric_ignore :: "pandas \<Rightarrow> column \<Rightarrow> column" where
  "to_numeric_ignore lib col =
     (if list_all (\<lambda>c. to_numeric lib c \<noteq> None) (cells col)
      then (let values = map (\<lambda>c. the (to_numeric lib c)) (cells col)
            in col\<lparr>dtype := (if list_all (\<lambda>v. case v of Num n \<Rightarrow> True | _ \<Rightarrow> False) values
                              then Numpy_int64 else Float64),
                   cells := values\<rparr>)
      else col)"

text \<open>\<open>pd.to_datetime(col, errors='coerce').dt.date\<close>: a date, or \<open>NaT\<close>, per row.\<close>

definition to_date :: "pandas \<Rightarrow> column \<Rightarrow> column" where
  "to_date lib col =
     col\<lparr>dtype := Object,
         cells := map (\<lambda>t. case t of
                              None \<Rightarrow> NaT
                            | Some ts \<Rightarrow> Day (year ts) (month ts) (day ts))
                    (to_datetime lib (cells col))\<rparr>"

text \<open>An assignment \<open>df[name] = f(df[name])\<close> for every name of a list, in order.\<close>

definition assign_each :: "(column \<Rightarrow> column) \<Rightarrow> string list \<Rightarrow> frame \<Rightarrow> frame" where
  "assign_each f names df =
     foldl (\<lambda>d name. case get_col d name of None \<Rightarrow> d | Some c \<Rightarrow> set_col d name (f c)) df names"

definition numeric_pass :: "pandas \<Rightarrow> frame \<Rightarrow> frame" where
  "numeric_pass lib df =
     assign_each (to_numeric_ignore lib) (map cname (filter (\<lambda>c. dtype c = Object) df)) df"

definition date_pass :: "pandas \<Rightarrow> string list \<Rightarrow> frame \<Rightarrow> frame" where
  "date_pass lib date_columns df = assign_each (to_date lib) date_columns df"

subsection \<open>The workbook (openpyxl)\<close>

text \<open>
  A worksheet is the list of its rows; a cell carries a value and, through its style
  index, the name of a named style of the workbook; index 0 is \<open>Normal\<close>. A workbook keeps
  the \<open>NamedStyle\<close> objects registered with it (\<open>registered\<close>), each with its name and number
  format.
\<close>

record xcell =
  xvalue :: cell
  style :: string

type_synonym worksheet = "xcell list list"

record named_style =
  sname :: string
  number_format :: string

record workbook =
  registered :: "named_style list"
  sheets :: "(string \<times> worksheet) list"

definition plain :: "cell \<Rightarrow> xcell" where
  "plain v = \<lparr>xvalue = v, style = ''Normal''\<rparr>"

text \<open>The header row and the data rows that the merger appends to the emptied sheet.\<close>

definition written_rows :: "frame \<Rightarrow> worksheet" where
  "written_rows df =
     map (\<lambda>c. plain (Str (cname c))) df
     # map (\<lambda>i. map (\<lambda>c. plain (cells c ! i)) df) [0 ..< nrows df]"

text \<open>The style object that every call creates anew (\<open>NamedStyle(name="mmddyyyy")\<close>).\<close>

definition date_style :: named_style where
  "date_style = \<lparr>sname = ''mmddyyyy'', number_format = ''MM/DD/YYYY''\<rparr>"

text \<open>
  The property \<open>wb.named_styles\<close> builds a new list of the names of the registered styles,
  as texts. An entry of it is therefore never a \<open>NamedStyle\<close>: the comprehension of the
  merger keeps none, and the \<open>append\<close> that follows extends that new list, which is
  dropped. The registered styles are as before.
\<close>

definition named_styles :: "named_style list \<Rightarrow> (string + named_style) list" where
  "named_styles styles = map (\<lambda>s. Inl (sname s)) styles"

definition register_lines :: "named_style list \<Rightarrow> named_style list" where
  "register_lines styles =
     (let existing_named_styles = [sname st. Inr st \<leftarrow> named_styles styles];
          listed = (if sname date_style \<notin> set existing_named_styles
                    then named_styles styles @ [Inr date_style]
                    else named_styles styles)
      in styles)"

text \<open>
  \<open>isinstance(cell.value, datetime.date)\<close>: a date, and also \<open>NaT\<close>, whose class derives
  from \<open>datetime\<close>.
\<close>

definition is_date :: "cell \<Rightarrow> bool" where
  "is_date v = (case v of Day y m d \<Rightarrow> True | NaT \<Rightarrow> True | _ \<Rightarrow> False)"

text \<open>
  The workbook side of \<open>cell.style = date_style\<close>, from the registered styles and whether
  this call's style object is bound to the workbook yet. A style that is not among the
  registered ones (compared by value) is registered and bound, unless its name is taken,
  which raises \<open>ValueError\<close>. A style that is among them is not registered again.
\<close>

definition assign_date_style :: "named_style list \<times> bool \<Rightarrow> py_error + (named_style list \<times> bool)" where
  "assign_date_style reg =
     (case reg of (styles, bound) \<Rightarrow>
        if date_style \<in> set styles then Inr (styles, bound)
        else if sname date_style \<in> set (map sname styles) then Inl ValueError
        else Inr (styles @ [date_style], True))"

text \<open>
  The body of the inner loop at one position (row and column, one-based):
  \<open>ws.cell(row=row_idx, column=date_col_idx)\<close> and the guarded assignment. The cell
  takes the style indices of the assigned object: those of \<open>mmddyyyy\<close> when the object is
  bound, and the indices of a fresh object, which are those of \<open>Normal\<close>, when it is not.
  A position outside the written rows holds an empty cell, which is no date.
\<close>

type_synonym style_state = "named_style list \<times> bool \<times> worksheet"

definition restyle :: "style_state \<Rightarrow> nat \<times> nat \<Rightarrow> py_error + style_state" where
  "restyle st pos =
     (case st of (styles, bound, ws) \<Rightarrow>
      case pos of (row_idx, col_idx) \<Rightarrow>
        if 1 \<le> row_idx \<and> row_idx \<le> length ws \<and> 1 \<le> col_idx
           \<and> col_idx \<le> length (ws ! (row_idx - 1))
        then (let cell = ws ! (row_idx - 1) ! (col_idx - 1)
              in if is_date (xvalue cell) \<and> style cell \<noteq> sname date_style then
                   (case assign_date_style (styles, bound) of
                      Inl err \<Rightarrow> Inl err
                    | Inr (styles', bound') \<Rightarrow>
                        Inr (styles', bound',
                             ws[row_idx - 1 :=
                                  (ws ! (row_idx - 1))[col_idx - 1 :=
                                     cell\<lparr>style := (if bound' then sname date_style else ''Normal'')\<rparr>]]))
                 else Inr st)
        else Inr st)"

fun restyle_all :: "style_state \<Rightarrow> (nat \<times> nat) list \<Rightarrow> py_error + style_state" where
  "restyle_all st [] = Inr st"
| "restyle_all st (pos # rest) =
     (case restyle st pos of
        Inl err \<Rightarrow> Inl err
      | Inr st' \<Rightarrow> restyle_all st' rest)"

definition get_loc :: "frame \<Rightarrow> string \<Rightarrow> nat" where
  "get_loc df col = length (takeWhile (\<lambda>c. cname c \<noteq> col) df)"

text \<open>The positions that the two nested loops visit, in their order.\<close>

definition style_positions :: "frame \<Rightarrow> string list \<Rightarrow> (nat \<times> nat) list" where
  "style_positions df date_columns =
     concat (map (\<lambda>col. if col \<in> set (map cname df)
                         then (let date_col_idx = get_loc df col + 1
                               in map (\<lambda>row_idx. (row_idx, date_col_idx)) [2 ..< nrows df + 2])
                         else []) date_columns)"

text \<open>
  The style-application step: the lines that mean to register the style, then the loops,
  which start with a style object that is not bound.
\<close>

definition apply_date_style ::
  "string list \<Rightarrow> frame \<Rightarrow> named_style list \<times> worksheet
     \<Rightarrow> py_error + (named_style list \<times> worksheet)" where
  "apply_date_style date_columns df state =
     (case restyle_all (register_lines (fst state), False, snd state)
             (style_positions df date_columns) of
        Inl err \<Rightarrow> Inl err
      | Inr (styles, bound, ws) \<Rightarrow> Inr (styles, ws))"

definition put_sheet :: "string \<Rightarrow> worksheet \<Rightarrow> (string \<times> worksheet) list \<Rightarrow> (string \<times> worksheet) list" where
  "put_sheet name ws shs =
     (if name \<notin> set (map fst shs) then shs @ [(name, ws)]
      else map (\<lambda>(n, w). if n = name then (n, ws) else (n, w)) shs)"

text \<open>
  The merger: the result is the store, the files and the success flag. The two conversion
  passes assign into the frame that the caller passed; \<open>reindex\<close> then makes the local
  copy that is written. A path without a workbook makes \<open>load_workbook\<close> raise; that and
  an exception of the style step are caught and reported as \<open>False\<close>, and nothing is saved.
\<close>

definition update_excel_with_sap_data ::
  "pandas \<Rightarrow> store \<Rightarrow> (string \<rightharpoonup> workbook) \<Rightarrow> nat option \<Rightarrow> string \<Rightarrow> string
     \<Rightarrow> string list option \<Rightarrow> nat option \<Rightarrow> store \<times> (string \<rightharpoonup> workbook) \<times> bool" where
  "update_excel_with_sap_data lib st files df EXCEL_FILE_PATH SHEET_NAME date_columns none_df =
     (case (case df of Some r \<Rightarrow> Some r | None \<Rightarrow> none_df) of
        None \<Rightarrow> (st, files, False)
      | Some r \<Rightarrow>
          (let dcs = (case date_columns of None \<Rightarrow> [] | Some l \<Rightarrow> l);
               converted = date_pass lib dcs (numeric_pass lib (st r));
               st' = st(r := converted)
           in case files EXCEL_FILE_PATH of
                None \<Rightarrow> (st', files, False)
              | Some wb \<Rightarrow>
                  (case apply_date_style dcs converted (registered wb, written_rows converted) of
                     Inl err \<Rightarrow> (st', files, False)
                   | Inr (styles, ws) \<Rightarrow>
                       (st', files(EXCEL_FILE_PATH \<mapsto>
                                wb\<lparr>registered := styles,
                                   sheets := put_sheet SHEET_NAME ws (sheets wb)\<rparr>), True))))"





section \<open>Concrete inputs for the runs below\<close>

definition demo_session :: "nat \<Rightarrow> string \<Rightarrow> session" where
  "demo_session i t = \<lparr>sid = i, Transaction = Some t, SystemName = Some ''PRD'',
     User = Some ''BOB'', usr_area = None\<rparr>"

definition busy_host :: host where
  "busy_host = Engine [Some [demo_session 1 ''VA01'', demo_session 2 ''SMEN'']]"

definition idle_host :: host where
  "idle_host = Engine [Some [demo_session 1 ''VA01''], Some [demo_session 3 '''', demo_session 4 ''S000'']]"

definition lbl :: "string \<Rightarrow> string \<Rightarrow> element" where
  "lbl i t = \<lparr>Id = i, Text = Some t, Tooltip = None, Value = None, Caption = None, Description = None\<rparr>"

definition screen :: "element list \<Rightarrow> session" where
  "screen children = \<lparr>sid = 0, Transaction = Some ''VA05'', SystemName = Some ''PRD'',
     User = Some ''BOB'', usr_area = Some children\<rparr>"

definition colliding :: "element list" where
  "colliding = [lbl ''wnd[0]/usr/lbl[0,3]'' ''Qty'', lbl ''wnd[0]/usr/lbl[0,3]'' ''Price'']"

definition fixture :: "element list" where
  "fixture = [lbl ''wnd[0]/usr/lbl[0,3]'' ''Qty'', lbl ''wnd[0]/usr/lbl[1,3]'' ''Price'',
     lbl ''wnd[0]/usr/lbl[0,5]'' ''10'', lbl ''wnd[0]/usr/lbl[1,5]'' ''100'']"

definition text_col :: "string \<Rightarrow> cell list \<Rightarrow> column" where
  "text_col n cs = \<lparr>cname = n, dtype = Object, cells = cs\<rparr>"

definition dates_in :: frame where
  "dates_in = [text_col ''D'' [Str ''2022-01-01'', Str ''n/a'', Null]]"

definition mixed_dates :: frame where
  "mixed_dates = [text_col ''D'' [Str ''01/02/2022'', Str ''2022-01-01'']]"

definition orders :: frame where
  "orders = [text_col ''Qty'' [Str ''10'', Str ''20''],
             text_col ''Name'' [Str ''apple'', Str ''pear''],
             text_col ''Date'' [Str ''2022-01-01'', Str '''']]"

definition caller_store :: store where
  "caller_store = (\<lambda>r. if r = 7 then orders else [])"

definition normal_style :: named_style where
  "normal_style = \<lparr>sname = ''Normal'', number_format = ''General''\<rparr>"

definition book :: workbook where
  "book = \<lparr>registered = [normal_style], sheets = [(''Sheet1'', [])]\<rparr>"

definition dated_orders :: frame where
  "dated_orders = [\<lparr>cname = ''Qty'', dtype = Numpy_int64, cells = [Num 10, Num 20]\<rparr>,
                   text_col ''Name'' [Str ''apple'', Str ''pear''],
                   text_col ''Date'' [Day 2022 1 1, NaT]]"






section \<open>Properties of the session broker\<close>

lemmas demo_simps = demo_session_def busy_host_def idle_host_def get_sap_sessions_def
  is_session_idle_def idle_codes_def strip_def strip_chars_def is_space_def connect_to_idle_sap_def

text \<open>
  Claim C2. When the three attribute reads succeed, \<open>is_session_idle\<close> is true exactly
  when the transaction code is empty or, stripped of whitespace, one of \<open>SESSION_MANAGER\<close>,
  \<open>SMEN\<close>, \<open>S000\<close>; when one of the reads raises, the result is false. A session on
  \<open>SESSION_MANAGER\<close> is idle and one on \<open>VA01\<close> is busy.
\<close>

theorem is_session_idle_iff:
  "(Transaction s = Some t \<and> SystemName s = Some n \<and> User s = Some u \<longrightarrow>
      (is_session_idle s \<longleftrightarrow> t = [] \<or> strip t \<in> {''SESSION_MANAGER'', ''SMEN'', ''S000''}))
   \<and> (Transaction s = None \<or> SystemName s = None \<or> User s = None \<longrightarrow> \<not> is_session_idle s)
   \<and> (Transaction s = Some ''SESSION_MANAGER'' \<and> SystemName s = Some n \<and> User s = Some u \<longrightarrow>
        is_session_idle s)
   \<and> (Transaction s = Some ''VA01'' \<and> SystemName s = Some n \<and> User s = Some u \<longrightarrow>
        \<not> is_session_idle s)"
  by (auto simp: is_session_idle_def idle_codes_def strip_def strip_chars_def is_space_def
           split: option.splits)

text \<open>The statement of C2 at four sessions: idle, busy, idle after stripping, and a faulty read.\<close>

theorem is_session_idle_iff_witness:
  "is_session_idle (demo_session 1 ''SESSION_MANAGER'')
   \<and> \<not> is_session_idle (demo_session 2 ''VA01'')
   \<and> is_session_idle (demo_session 3 '' SMEN '')
   \<and> \<not> is_session_idle ((demo_session 4 ''SMEN'')\<lparr>User := None\<rparr>)"
  using is_session_idle_iff [of "demo_session 1 ''SESSION_MANAGER''" "''SESSION_MANAGER''" "''PRD''" "''BOB''"]
        is_session_idle_iff [of "demo_session 2 ''VA01''" "''VA01''" "''PRD''" "''BOB''"]
        is_session_idle_iff [of "demo_session 3 '' SMEN ''" "'' SMEN ''" "''PRD''" "''BOB''"]
        is_session_idle_iff [of "(demo_session 4 ''SMEN'')\<lparr>User := None\<rparr>" "''SMEN''" "''PRD''" "''BOB''"]
  by (simp add: demo_session_def strip_def strip_chars_def is_space_def)

lemma first_sessions_length:
  "first_sessions cs = Some ss \<Longrightarrow> length ss \<le> length cs"
  by (induction cs arbitrary: ss rule: first_sessions.induct)
     (auto split: option.splits list.splits)

lemma first_sessions_mem:
  "first_sessions cs = Some ss \<Longrightarrow> s \<in> set ss \<Longrightarrow> \<exists>rest. Some (s # rest) \<in> set cs"
proof (induction cs arbitrary: ss rule: first_sessions.induct)
  case 1
  then show ?case by simp
next
  case (2 cs)
  then show ?case by simp
next
  case (3 c cs)
  then obtain r where r: "first_sessions cs = Some r"
    by (auto split: option.splits)
  show ?case
  proof (cases c)
    case Nil
    with 3 r show ?thesis by fastforce
  next
    case (Cons s0 tl)
    with 3 r have "s = s0 \<or> s \<in> set r" by auto
    then show ?thesis
    proof
      assume "s = s0"
      with Cons show ?thesis by auto
    next
      assume "s \<in> set r"
      with 3 r obtain rest where "Some (s # rest) \<in> set cs" by blast
      then show ?thesis by auto
    qed
  qed
qed

lemma get_sap_sessions_first:
  "s \<in> set (get_sap_sessions h) \<Longrightarrow> \<exists>cs rest. h = Engine cs \<and> Some (s # rest) \<in> set cs"
proof (cases h)
  case (Engine conns)
  assume "s \<in> set (get_sap_sessions h)"
  with Engine obtain ss where "first_sessions conns = Some ss" "s \<in> set ss"
    by (auto simp: get_sap_sessions_def split: option.splits if_splits)
  then obtain rest where "Some (s # rest) \<in> set conns"
    using first_sessions_mem by blast
  with Engine show ?thesis by blast
qed (simp_all add: get_sap_sessions_def)

lemma get_sap_sessions_length: "length (get_sap_sessions (Engine conns)) \<le> length conns"
  by (auto simp: get_sap_sessions_def split: option.splits dest: first_sessions_length)

lemma select_idle_mem: "select_idle ss = (evs, Inr (Some s)) \<Longrightarrow> s \<in> set ss \<and> is_session_idle s"
  by (induction ss arbitrary: evs) (auto split: option.splits if_splits prod.splits)

lemma select_idle_none:
  "\<forall>s \<in> set ss. \<not> is_session_idle s \<Longrightarrow> select_idle ss = (map (\<lambda>s. CheckIdle (sid s)) ss, Inr None)"
  by (induction ss) auto

lemma select_idle_never_raises: "snd (select_idle ss) \<noteq> Inl f"
  by (induction ss) (auto simp: is_session_idle_def split: option.splits if_splits prod.splits)

lemma connect_mem:
  "snd (connect_to_idle_sap e) = Inr (Some s) \<Longrightarrow>
     s \<in> set (get_sap_sessions (host1 e)) \<or> s \<in> set (get_sap_sessions (host2 e))"
  unfolding connect_to_idle_sap_def Let_def
  by (auto split: prod.splits sum.splits option.splits bool.splits if_splits
      dest: select_idle_mem)

lemma first_sessions_eq:
  "first_sessions cs =
     (if None \<in> set cs then None
      else Some (concat (map (\<lambda>c. case c of Some (s0 # _) \<Rightarrow> [s0] | _ \<Rightarrow> []) cs)))"
  by (induction cs rule: first_sessions.induct) (auto split: list.splits)

lemma select_idle_events:
  "ev \<in> set (fst (select_idle ss)) \<Longrightarrow> (\<exists>i. ev = CheckIdle i \<or> ev = BringToFront i)"
  by (induction ss) (auto split: option.splits if_splits prod.splits)

lemma select_idle_count:
  "count_list (fst (select_idle ss)) ListSessions = 0 \<and>
   count_list (fst (select_idle ss)) Launch = 0 \<and>
   count_list (fst (select_idle ss)) (Sleep n) = 0"
  using select_idle_events [of _ ss] by (fastforce simp: count_list_0_iff)

lemma count_list_checks:
  "count_list (map (\<lambda>s. CheckIdle (sid s)) ss) ListSessions = 0 \<and>
   count_list (map (\<lambda>s. CheckIdle (sid s)) ss) Launch = 0 \<and>
   count_list (map (\<lambda>s. CheckIdle (sid s)) ss) (Sleep n) = 0"
  by (induction ss) auto

lemma idle_reads_ok:
  "is_session_idle s \<Longrightarrow> \<exists>u n. User s = Some u \<and> SystemName s = Some n"
  by (auto simp: is_session_idle_def split: option.splits)

lemma select_idle_result:
  "snd (select_idle ss) = Inr (find is_session_idle ss)"
proof (induction ss)
  case Nil
  show ?case by simp
next
  case (Cons s ss)
  show ?case
  proof (cases "is_session_idle s")
    case True
    then obtain u n where "User s = Some u" "SystemName s = Some n"
      using idle_reads_ok by blast
    with True show ?thesis by simp
  next
    case False
    with Cons show ?thesis by (auto split: prod.splits)
  qed
qed

lemma connect_no_idle:
  assumes "\<forall>s \<in> set (get_sap_sessions (host1 e)). \<not> is_session_idle s"
  shows "connect_to_idle_sap e =
     (if launch_sap e = Some True
      then (ListSessions # map (\<lambda>s. CheckIdle (sid s)) (get_sap_sessions (host1 e))
              @ [Launch, Sleep 5, ListSessions] @ fst (select_idle (get_sap_sessions (host2 e))),
            Inr (find is_session_idle (get_sap_sessions (host2 e))))
      else (ListSessions # map (\<lambda>s. CheckIdle (sid s)) (get_sap_sessions (host1 e)) @ [Launch],
            Inr None))"
proof -
  have s1: "select_idle (get_sap_sessions (host1 e)) =
      (map (\<lambda>s. CheckIdle (sid s)) (get_sap_sessions (host1 e)), Inr None)"
    using assms by (rule select_idle_none)
  have s2: "select_idle (get_sap_sessions (host2 e)) =
      (fst (select_idle (get_sap_sessions (host2 e))),
       Inr (find is_session_idle (get_sap_sessions (host2 e))))"
    using select_idle_result [of "get_sap_sessions (host2 e)"]
    by (metis prod.collapse)
  show ?thesis
  proof (cases "launch_sap e = Some True")
    case True
    then show ?thesis
      unfolding connect_to_idle_sap_def Let_def
      by (subst s2, cases "get_sap_sessions (host1 e) = []") (simp_all add: s1)
  next
    case False
    then show ?thesis
      unfolding connect_to_idle_sap_def Let_def
      by (cases "get_sap_sessions (host1 e) = []")
         (auto simp: s1 split: option.splits bool.splits)
  qed
qed

text \<open>
  Claim C3, as the code has it. When no listed session is idle, \<open>launch_sap\<close> is called
  exactly once. If it returns true, the function sleeps five seconds once, lists the
  sessions once more (two listings in all) and runs one more selection pass over the new
  list, whose first idle session, if any, is the result. If it returns false or raises,
  the function neither sleeps nor lists again and returns \<open>None\<close>. The result is \<open>None\<close>
  when the second list has no idle session, and no exception ever leaves the function.
\<close>

theorem connect_to_idle_sap_no_idle:
  assumes "\<forall>s \<in> set (get_sap_sessions (host1 e)). \<not> is_session_idle s"
  shows "count_list (fst (connect_to_idle_sap e)) Launch = 1
    \<and> (launch_sap e = Some True \<longrightarrow>
         fst (connect_to_idle_sap e) =
           ListSessions # map (\<lambda>s. CheckIdle (sid s)) (get_sap_sessions (host1 e))
             @ [Launch, Sleep 5, ListSessions] @ fst (select_idle (get_sap_sessions (host2 e)))
         \<and> count_list (fst (connect_to_idle_sap e)) (Sleep 5) = 1
         \<and> count_list (fst (connect_to_idle_sap e)) ListSessions = 2
         \<and> snd (connect_to_idle_sap e) = Inr (find is_session_idle (get_sap_sessions (host2 e))))
    \<and> (launch_sap e \<noteq> Some True \<longrightarrow>
         fst (connect_to_idle_sap e) =
           ListSessions # map (\<lambda>s. CheckIdle (sid s)) (get_sap_sessions (host1 e)) @ [Launch]
         \<and> snd (connect_to_idle_sap e) = Inr None)
    \<and> ((\<forall>s \<in> set (get_sap_sessions (host2 e)). \<not> is_session_idle s) \<longrightarrow>
         snd (connect_to_idle_sap e) = Inr None)
    \<and> (\<forall>f. snd (connect_to_idle_sap e) \<noteq> Inl f)"
proof -
  note c = connect_no_idle [OF assms]
  have "count_list (fst (connect_to_idle_sap e)) Launch = 1"
    by (simp add: c select_idle_count count_list_checks)
  moreover have "launch_sap e = Some True \<longrightarrow>
         count_list (fst (connect_to_idle_sap e)) (Sleep 5) = 1
         \<and> count_list (fst (connect_to_idle_sap e)) ListSessions = 2"
    by (simp add: c select_idle_count count_list_checks)
  moreover have "(\<forall>s \<in> set (get_sap_sessions (host2 e)). \<not> is_session_idle s) \<longrightarrow>
         snd (connect_to_idle_sap e) = Inr None"
    by (simp add: c find_None_iff)
  ultimately show ?thesis
    by (simp add: c)
qed

text \<open>
  The statement of C3 in three environments whose first listing has one busy session: the
  launch succeeds and an idle session appears; the launch succeeds and none appears; the
  launcher raises.
\<close>

theorem connect_to_idle_sap_no_idle_witness:
  "get_sap_sessions busy_host = [demo_session 1 ''VA01'']
   \<and> \<not> is_session_idle (demo_session 1 ''VA01'')
   \<and> connect_to_idle_sap \<lparr>host1 = busy_host, launch_sap = Some True, host2 = idle_host\<rparr> =
       ([ListSessions, CheckIdle 1, Launch, Sleep 5, ListSessions, CheckIdle 1, CheckIdle 3,
         BringToFront 3], Inr (Some (demo_session 3 '''')))
   \<and> snd (connect_to_idle_sap \<lparr>host1 = busy_host, launch_sap = Some True, host2 = busy_host\<rparr>) = Inr None
   \<and> snd (connect_to_idle_sap \<lparr>host1 = busy_host, launch_sap = None, host2 = idle_host\<rparr>) = Inr None"
  using connect_to_idle_sap_no_idle [of "\<lparr>host1 = busy_host, launch_sap = Some True, host2 = idle_host\<rparr>"]
    connect_to_idle_sap_no_idle [of "\<lparr>host1 = busy_host, launch_sap = Some True, host2 = busy_host\<rparr>"]
    connect_to_idle_sap_no_idle [of "\<lparr>host1 = busy_host, launch_sap = None, host2 = idle_host\<rparr>"]
  by (simp add: demo_simps)

text \<open>
  Claim C3 as it was stated asks for the settle wait and the second listing whenever no
  session is idle. With one busy session and a launcher that returns false, the function
  lists once, checks once, calls the launcher and returns: no wait, no second listing.
\<close>

theorem connect_to_idle_sap_launch_fails_counterexample:
  "\<not> is_session_idle (demo_session 1 ''VA01'')
   \<and> get_sap_sessions busy_host = [demo_session 1 ''VA01'']
   \<and> connect_to_idle_sap \<lparr>host1 = busy_host, launch_sap = Some False, host2 = idle_host\<rparr> =
        ([ListSessions, CheckIdle 1, Launch], Inr None)
   \<and> Sleep 5 \<notin> set (fst (connect_to_idle_sap \<lparr>host1 = busy_host, launch_sap = Some False, host2 = idle_host\<rparr>))
   \<and> count_list (fst (connect_to_idle_sap \<lparr>host1 = busy_host, launch_sap = Some False, host2 = idle_host\<rparr>))
        ListSessions = 1"
  by (simp add: demo_simps)

text \<open>
  Claim C10. \<open>get_sap_sessions\<close> returns, for each connection that has sessions, its
  first session and nothing else, so at most one session per connection; every session it
  returns, and every session that \<open>connect_to_idle_sap\<close> returns, is the first child of a
  connection of the host application.
\<close>

theorem get_sap_sessions_first_only:
  "get_sap_sessions (Engine conns) =
      (if None \<in> set conns then []
       else concat (map (\<lambda>c. case c of Some (s0 # _) \<Rightarrow> [s0] | _ \<Rightarrow> []) conns))
   \<and> length (get_sap_sessions (Engine conns)) \<le> length conns
   \<and> (s \<in> set (get_sap_sessions h) \<longrightarrow> (\<exists>cs rest. h = Engine cs \<and> Some (s # rest) \<in> set cs))
   \<and> (snd (connect_to_idle_sap e) = Inr (Some s) \<longrightarrow>
        (\<exists>cs rest. (host1 e = Engine cs \<or> host2 e = Engine cs) \<and> Some (s # rest) \<in> set cs))"
proof -
  have a: "get_sap_sessions (Engine conns) =
      (if None \<in> set conns then []
       else concat (map (\<lambda>c. case c of Some (s0 # _) \<Rightarrow> [s0] | _ \<Rightarrow> []) conns))"
    by (simp add: get_sap_sessions_def first_sessions_eq)
  have b: "s \<in> set (get_sap_sessions h) \<Longrightarrow> \<exists>cs rest. h = Engine cs \<and> Some (s # rest) \<in> set cs"
    for s h
    by (rule get_sap_sessions_first)
  have c: "snd (connect_to_idle_sap e) = Inr (Some s) \<longrightarrow>
        (\<exists>cs rest. (host1 e = Engine cs \<or> host2 e = Engine cs) \<and> Some (s # rest) \<in> set cs)"
    using connect_mem [of e s] b [of s "host1 e"] b [of s "host2 e"] by blast
  show ?thesis
    using a b [of s h] c get_sap_sessions_length [of conns] by blast
qed

text \<open>
  The statement of C10 on a connection whose first session is busy and whose second is
  idle: only the busy one is listed, and no session is selected although one is idle.
\<close>

theorem get_sap_sessions_first_only_witness:
  "get_sap_sessions busy_host = [demo_session 1 ''VA01'']
   \<and> is_session_idle (demo_session 2 ''SMEN'')
   \<and> snd (connect_to_idle_sap \<lparr>host1 = busy_host, launch_sap = Some True, host2 = busy_host\<rparr>) = Inr None
   \<and> snd (connect_to_idle_sap \<lparr>host1 = idle_host, launch_sap = None, host2 = busy_host\<rparr>) =
        Inr (Some (demo_session 3 ''''))
   \<and> (\<exists>cs rest. idle_host = Engine cs \<and> Some (demo_session 3 '''' # rest) \<in> set cs)"
  using get_sap_sessions_first_only [of "[Some [demo_session 1 ''VA01'', demo_session 2 ''SMEN'']]"
          "demo_session 3 ''''" idle_host
          "\<lparr>host1 = idle_host, launch_sap = None, host2 = busy_host\<rparr>"]
  by (simp add: demo_simps)

section \<open>Properties of the label extractor\<close>

lemma pivot_collision:
  "\<not> distinct (map coord label_data) \<Longrightarrow> pivot label_data = Inl ValueError"
  by (simp add: pivot_def)

lemma pivot_ok: "pivot label_data = Inr t \<Longrightarrow> distinct (map coord label_data)"
  by (auto simp: pivot_def split: if_splits)

lemma extract_labels_Some:
  "extract_labels s = (lg, Some t) \<Longrightarrow>
     \<exists>children label_data. usr_area s = Some children \<and> harvest children = Inr label_data
        \<and> label_data \<noteq> [] \<and> pivot label_data = Inr t"
  by (auto simp: extract_labels_def split: option.splits sum.splits if_splits)

text \<open>
  Claim C1. If two positions of the harvested cell list carry the same (row, column) pair,
  \<open>extract_labels\<close> logs an error and returns \<open>None\<close>; and whenever it returns a pivoted
  table, that table is the pivot of a harvested list in which no two positions share
  their (row, column) pair.
\<close>

theorem extract_labels_collision:
  "(usr_area s = Some children \<and> harvest children = Inr label_data
      \<and> i < length label_data \<and> j < length label_data \<and> i \<noteq> j
      \<and> coord (label_data ! i) = coord (label_data ! j)
     \<longrightarrow> extract_labels s = ([Error ''Error extracting labels''], None))
   \<and> (extract_labels s = (lg, Some t)
     \<longrightarrow> (\<exists>children label_data. usr_area s = Some children \<and> harvest children = Inr label_data
            \<and> pivot label_data = Inr t
            \<and> (\<forall>i < length label_data. \<forall>j < length label_data.
                  coord (label_data ! i) = coord (label_data ! j) \<longrightarrow> i = j)))"
proof (intro conjI impI)
  assume a: "usr_area s = Some children \<and> harvest children = Inr label_data
      \<and> i < length label_data \<and> j < length label_data \<and> i \<noteq> j
      \<and> coord (label_data ! i) = coord (label_data ! j)"
  then have "\<not> distinct (map coord label_data)"
    by (auto simp: distinct_conv_nth)
  then have "pivot label_data = Inl ValueError"
    by (rule pivot_collision)
  moreover from a have "label_data \<noteq> []" by auto
  ultimately show "extract_labels s = ([Error ''Error extracting labels''], None)"
    using a by (simp add: extract_labels_def)
next
  assume "extract_labels s = (lg, Some t)"
  then obtain children label_data where
    h: "usr_area s = Some children" "harvest children = Inr label_data" "pivot label_data = Inr t"
    using extract_labels_Some by blast
  from h(3) have "distinct (map coord label_data)" by (rule pivot_ok)
  then have "\<forall>i < length label_data. \<forall>j < length label_data.
                  coord (label_data ! i) = coord (label_data ! j) \<longrightarrow> i = j"
    by (auto simp: distinct_conv_nth)
  with h show "\<exists>children label_data. usr_area s = Some children \<and> harvest children = Inr label_data
            \<and> pivot label_data = Inr t
            \<and> (\<forall>i < length label_data. \<forall>j < length label_data.
                  coord (label_data ! i) = coord (label_data ! j) \<longrightarrow> i = j)"
    by blast
qed

lemma harvest_colliding:
  "harvest colliding = Inr [\<lparr>Row = 3, Column = 0, cell_Text = ''Qty''\<rparr>,
                            \<lparr>Row = 3, Column = 0, cell_Text = ''Price''\<rparr>]"
  by code_simp

lemma extract_fixture:
  "extract_labels (screen fixture) =
     ([Info ''Successfully extracted labels.''],
      Some \<lparr>pcolumns = [0, 1],
            prows = [(3, [Some ''Qty'', Some ''Price'']), (5, [Some ''10'', Some ''100''])]\<rparr>)"
  by code_simp

text \<open>The statement of C1 on a screen with two labels at column 0, row 3, and on a 2 x 2 fixture.\<close>

theorem extract_labels_collision_witness:
  "extract_labels (screen colliding) = ([Error ''Error extracting labels''], None)
   \<and> (\<exists>children label_data. usr_area (screen fixture) = Some children
         \<and> harvest children = Inr label_data
         \<and> (\<forall>i < length label_data. \<forall>j < length label_data.
                  coord (label_data ! i) = coord (label_data ! j) \<longrightarrow> i = j))"
proof
  have "usr_area (screen colliding) = Some colliding"
    by (simp add: screen_def)
  then show "extract_labels (screen colliding) = ([Error ''Error extracting labels''], None)"
    using extract_labels_collision [of "screen colliding" colliding
           "[\<lparr>Row = 3, Column = 0, cell_Text = ''Qty''\<rparr>, \<lparr>Row = 3, Column = 0, cell_Text = ''Price''\<rparr>]"
           0 1] harvest_colliding
    by (simp add: coord_def)
next
  have "\<exists>children label_data. usr_area (screen fixture) = Some children
         \<and> harvest children = Inr label_data
         \<and> pivot label_data = Inr \<lparr>pcolumns = [0, 1],
            prows = [(3, [Some ''Qty'', Some ''Price'']), (5, [Some ''10'', Some ''100''])]\<rparr>
         \<and> (\<forall>i < length label_data. \<forall>j < length label_data.
                  coord (label_data ! i) = coord (label_data ! j) \<longrightarrow> i = j)"
    using extract_labels_collision [THEN conjunct2, THEN mp, OF extract_fixture] .
  then show "\<exists>children label_data. usr_area (screen fixture) = Some children
         \<and> harvest children = Inr label_data
         \<and> (\<forall>i < length label_data. \<forall>j < length label_data.
                  coord (label_data ! i) = coord (label_data ! j) \<longrightarrow> i = j)"
    by blast
qed

text \<open>
  Claim C4 at a failing input. A label whose suffix has two parts that are not numbers,
  \<open>lbl[x,3]\<close>, is not recorded with the sentinel coordinates: \<open>int\<close> raises, the harvest
  stops, the cell harvested before it is lost, and the function returns \<open>None\<close>.
\<close>

theorem extract_labels_aborts_on_text_coordinates:
  "coordinates ''wnd[0]/usr/lbl[x,3]'' = Inl ValueError
   \<and> harvest [lbl ''wnd[0]/usr/lbl[0,3]'' ''Qty'', lbl ''wnd[0]/usr/lbl[x,3]'' ''Price''] = Inl ValueError
   \<and> extract_labels (screen [lbl ''wnd[0]/usr/lbl[0,3]'' ''Qty'', lbl ''wnd[0]/usr/lbl[x,3]'' ''Price''])
       = ([Error ''Error extracting labels''], None)"
  by code_simp

lemma coordinates_sentinel:
  "length (split_on CHR '','' (last (split_on CHR ''['' label_id))) \<noteq> 2
    \<Longrightarrow> coordinates label_id = Inr (- 1, - 1)"
  by (simp add: coordinates_def Let_def)

lemma harvest_sentinel:
  assumes "contains ''lbl'' (Id child)"
    and "extract_text child \<noteq> []" and "extract_text child \<noteq> ''<No Text Found>''"
    and "length (split_on CHR '','' (last (split_on CHR ''['' (Id child)))) \<noteq> 2"
  shows "harvest (child # rest) =
     (case harvest rest of
        Inl err \<Rightarrow> Inl err
      | Inr label_data \<Rightarrow>
          Inr (\<lparr>Row = - 1, Column = - 1, cell_Text = extract_text child\<rparr> # label_data))"
  using assms by (simp add: coordinates_sentinel Let_def)

section \<open>Properties of the preprocessor\<close>

lemma to_datetime_length: "length (to_datetime lib series) = length series"
  by (simp add: to_datetime_def Let_def)

lemma date_alv_cells:
  "cells (date_alv lib col) =
     map (\<lambda>t. case t of None \<Rightarrow> Null
               | Some ts \<Rightarrow> Str (strftime_mdY (normalize ts))) (to_datetime lib (cells col))"
  by (auto simp: date_alv_def Let_def split: option.splits)

lemma date_label_cells:
  "cells (date_label lib col) =
     map (\<lambda>t. case t of None \<Rightarrow> Str ''''
               | Some ts \<Rightarrow> Str (strftime_mdY (normalize ts)))
       (to_datetime lib (clean_dates lib (cells col)))"
  by (auto simp: date_label_def Let_def split: option.splits)

lemma clean_dates_length: "length (clean_dates lib series) = length series"
  by (simp add: clean_dates_def)

lemma clean_dates_nth:
  "i < length series \<Longrightarrow>
     clean_dates lib series ! i =
       (let s = strip (to_str lib (series ! i)) in if s \<in> set bad_values then Null else Str s)"
  by (auto simp: clean_dates_def Let_def)

lemma coerce_alv_date:
  "lower ty = ''date'' \<Longrightarrow>
     coerce_alv lib ty col =
       Inr (date_alv lib col, [Info (converted_msg (cname col) ''date format MM/DD/YYYY.'')])"
  by (simp add: coerce_alv_def)

lemma coerce_label_date:
  "lower ty = ''date'' \<Longrightarrow>
     fst (coerce_label lib mvf ty col) =
       date_label lib (fillna (case fill_value mvf (cname col) of None \<Rightarrow> Str '''' | Some v \<Rightarrow> v) col)"
  by (simp add: coerce_label_def)

lemma strftime_new_year:
  "year ts = 2022 \<Longrightarrow> month ts = 1 \<Longrightarrow> day ts = 1 \<Longrightarrow> strftime_mdY (normalize ts) = ''01/01/2022''"
  by (simp add: strftime_mdY_def normalize_def digit_char_def)

text \<open>
  Claim C5, as the code has it. For a column whose target type is \<open>date\<close>, and for what
  \<open>pd.to_datetime\<close> answers for the column as a whole: the ALV (light) variant turns each
  value that is read into the \<open>MM/DD/YYYY\<close> text of that day at midnight and every other
  value into the missing value; the label variant first fills missing values, strips the
  text and drops the listed bad values, then turns each value that is read into the same
  text and every other value into the empty string. In both variants a value that is read
  as 1 January 2022 becomes \<open>01/01/2022\<close>.
\<close>

theorem date_coercion_by_variant:
  assumes "lower ty = ''date''" and "i < length (cells col)"
  shows "(\<exists>col' lg. coerce_alv lib ty col = Inr (col', lg)
            \<and> length (cells col') = length (cells col)
            \<and> cells col' ! i =
                 (case to_datetime lib (cells col) ! i of
                    Some ts \<Rightarrow> Str (strftime_mdY (ts\<lparr>hour := 0, minute := 0, second := 0\<rparr>))
                  | None \<Rightarrow> Null))
     \<and> length (cells (fst (coerce_label lib mvf ty col))) = length (cells col)
     \<and> (let filled = fillna (case fill_value mvf (cname col) of None \<Rightarrow> Str '''' | Some v \<Rightarrow> v) col;
             series = clean_dates lib (cells filled)
         in cells (fst (coerce_label lib mvf ty col)) ! i =
              (case to_datetime lib series ! i of
                 Some ts \<Rightarrow> Str (strftime_mdY (ts\<lparr>hour := 0, minute := 0, second := 0\<rparr>))
               | None \<Rightarrow> Str '''')
            \<and> series ! i =
                (let s = strip (to_str lib (cells filled ! i))
                 in if s \<in> set bad_values then Null else Str s)
            \<and> (to_datetime lib series ! i = Some ts0
                  \<and> year ts0 = 2022 \<and> month ts0 = 1 \<and> day ts0 = 1
                \<longrightarrow> cells (fst (coerce_label lib mvf ty col)) ! i = Str ''01/01/2022''))
     \<and> (to_datetime lib (cells col) ! i = Some ts0
           \<and> year ts0 = 2022 \<and> month ts0 = 1 \<and> day ts0 = 1
        \<longrightarrow> (\<exists>col' lg. coerce_alv lib ty col = Inr (col', lg)
                   \<and> cells col' ! i = Str ''01/01/2022''))"
proof -
  define filled where
    "filled = fillna (case fill_value mvf (cname col) of None \<Rightarrow> Str '''' | Some v \<Rightarrow> v) col"
  define series where "series = clean_dates lib (cells filled)"
  have fl: "length (cells filled) = length (cells col)"
    by (simp add: filled_def fillna_def)
  have sl: "length series = length (cells col)"
    by (simp add: series_def clean_dates_length fl)
  have alv: "coerce_alv lib ty col =
       Inr (date_alv lib col, [Info (converted_msg (cname col) ''date format MM/DD/YYYY.'')])"
    using assms(1) by (rule coerce_alv_date)
  have a_len: "length (cells (date_alv lib col)) = length (cells col)"
    by (simp add: date_alv_cells to_datetime_length)
  have a_cell: "cells (date_alv lib col) ! i =
                 (case to_datetime lib (cells col) ! i of
                    Some ts \<Rightarrow> Str (strftime_mdY (ts\<lparr>hour := 0, minute := 0, second := 0\<rparr>))
                  | None \<Rightarrow> Null)"
    using assms(2)
    by (simp add: date_alv_cells to_datetime_length normalize_def split: option.splits)
  have lab: "fst (coerce_label lib mvf ty col) = date_label lib filled"
    unfolding filled_def using assms(1) by (rule coerce_label_date)
  have l_len: "length (cells (fst (coerce_label lib mvf ty col))) = length (cells col)"
    by (simp add: lab date_label_cells to_datetime_length clean_dates_length fl)
  have l_cell: "cells (fst (coerce_label lib mvf ty col)) ! i =
              (case to_datetime lib series ! i of
                 Some ts \<Rightarrow> Str (strftime_mdY (ts\<lparr>hour := 0, minute := 0, second := 0\<rparr>))
               | None \<Rightarrow> Str '''')"
    using assms(2) sl
    by (simp add: lab date_label_cells to_datetime_length series_def [symmetric] normalize_def
             split: option.splits)
  have s_cell: "series ! i =
                (let s = strip (to_str lib (cells filled ! i))
                 in if s \<in> set bad_values then Null else Str s)"
    unfolding series_def using assms(2) fl by (simp add: clean_dates_nth)
  have p: "strftime_mdY (ts0\<lparr>hour := 0, minute := 0, second := 0\<rparr>) = ''01/01/2022''"
    if "year ts0 = 2022 \<and> month ts0 = 1 \<and> day ts0 = 1"
    using that strftime_new_year [of ts0] by (simp add: normalize_def)
  have ex_l: "to_datetime lib series ! i = Some ts0
                  \<and> year ts0 = 2022 \<and> month ts0 = 1 \<and> day ts0 = 1
                \<longrightarrow> cells (fst (coerce_label lib mvf ty col)) ! i = Str ''01/01/2022''"
    using p by (simp add: l_cell)
  have ex_a: "to_datetime lib (cells col) ! i = Some ts0
           \<and> year ts0 = 2022 \<and> month ts0 = 1 \<and> day ts0 = 1
        \<longrightarrow> cells (date_alv lib col) ! i = Str ''01/01/2022''"
    using p by (simp add: a_cell)
  have "(let filled = filled; series = series
         in cells (fst (coerce_label lib mvf ty col)) ! i =
              (case to_datetime lib series ! i of
                 Some ts \<Rightarrow> Str (strftime_mdY (ts\<lparr>hour := 0, minute := 0, second := 0\<rparr>))
               | None \<Rightarrow> Str '''')
            \<and> series ! i =
                (let s = strip (to_str lib (cells filled ! i))
                 in if s \<in> set bad_values then Null else Str s)
            \<and> (to_datetime lib series ! i = Some ts0
                  \<and> year ts0 = 2022 \<and> month ts0 = 1 \<and> day ts0 = 1
                \<longrightarrow> cells (fst (coerce_label lib mvf ty col)) ! i = Str ''01/01/2022''))"
    unfolding Let_def using l_cell s_cell [unfolded Let_def] ex_l by blast
  then have lbl: "(let filled = fillna (case fill_value mvf (cname col) of None \<Rightarrow> Str '''' | Some v \<Rightarrow> v) col;
             series = clean_dates lib (cells filled)
         in cells (fst (coerce_label lib mvf ty col)) ! i =
              (case to_datetime lib series ! i of
                 Some ts \<Rightarrow> Str (strftime_mdY (ts\<lparr>hour := 0, minute := 0, second := 0\<rparr>))
               | None \<Rightarrow> Str '''')
            \<and> series ! i =
                (let s = strip (to_str lib (cells filled ! i))
                 in if s \<in> set bad_values then Null else Str s)
            \<and> (to_datetime lib series ! i = Some ts0
                  \<and> year ts0 = 2022 \<and> month ts0 = 1 \<and> day ts0 = 1
                \<longrightarrow> cells (fst (coerce_label lib mvf ty col)) ! i = Str ''01/01/2022''))"
    unfolding filled_def series_def Let_def filled_def .
  from alv a_len a_cell have A: "\<exists>col' lg. coerce_alv lib ty col = Inr (col', lg)
            \<and> length (cells col') = length (cells col)
            \<and> cells col' ! i =
                 (case to_datetime lib (cells col) ! i of
                    Some ts \<Rightarrow> Str (strftime_mdY (ts\<lparr>hour := 0, minute := 0, second := 0\<rparr>))
                  | None \<Rightarrow> Null)"
    by blast
  from alv ex_a have E: "to_datetime lib (cells col) ! i = Some ts0
           \<and> year ts0 = 2022 \<and> month ts0 = 1 \<and> day ts0 = 1
        \<longrightarrow> (\<exists>col' lg. coerce_alv lib ty col = Inr (col', lg)
                   \<and> cells col' ! i = Str ''01/01/2022'')"
    by blast
  from A l_len lbl E show ?thesis
    by (intro conjI)
qed

lemma lower_Date: "lower ''Date'' = ''date''"
  by (simp add: lower_def lower_char_def)

text \<open>
  The statement of C5 on a column of ISO dates that starts with \<open>2022-01-01\<close>, with the
  sample library.
\<close>

theorem date_coercion_by_variant_witness:
  "lower ''Date'' = ''date'' \<and> (0::nat) < length (cells (text_col ''D'' [Str ''2022-01-01'', Str ''n/a'', Null]))
   \<and> cells (text_col ''D'' [Str ''2022-01-01'', Str ''n/a'', Null]) ! 0 = Str ''2022-01-01''
   \<and> cells (fst (coerce_label sample_lib None ''Date'' (text_col ''D'' [Str ''2022-01-01'', Str ''n/a'', Null]))) ! 0
        = Str ''01/01/2022''
   \<and> (\<exists>col' lg. coerce_alv sample_lib ''Date'' (text_col ''D'' [Str ''2022-01-01'', Str ''n/a'', Null]) = Inr (col', lg)
          \<and> cells col' ! 0 = Str ''01/01/2022'')"
proof -
  let ?col = "text_col ''D'' [Str ''2022-01-01'', Str ''n/a'', Null]"
  let ?ts = "\<lparr>year = 2022, month = 1, day = 1, hour = 0, minute = 0, second = 0\<rparr>"
  have pa: "to_datetime sample_lib (cells ?col) ! 0 = Some ?ts"
    by code_simp
  have pl: "to_datetime sample_lib (clean_dates sample_lib (cells (fillna
       (case fill_value None (cname ?col) of None \<Rightarrow> Str '''' | Some v \<Rightarrow> v) ?col))) ! 0 = Some ?ts"
    by code_simp
  have l: "(0::nat) < length (cells ?col)"
    by (simp add: text_col_def)
  have c: "cells ?col ! 0 = Str ''2022-01-01''"
    by (simp add: text_col_def)
  note t = date_coercion_by_variant [where lib = sample_lib and mvf = None and ?ts0.0 = ?ts,
        OF lower_Date l, unfolded Let_def]
  have a: "\<exists>col' lg. coerce_alv sample_lib ''Date'' ?col = Inr (col', lg)
          \<and> cells col' ! 0 = Str ''01/01/2022''"
    by (rule t [THEN conjunct2, THEN conjunct2, THEN conjunct2, THEN mp]) (simp add: pa)
  have b: "cells (fst (coerce_label sample_lib None ''Date'' ?col)) ! 0 = Str ''01/01/2022''"
    by (rule t [THEN conjunct2, THEN conjunct2, THEN conjunct1, THEN conjunct2, THEN conjunct2,
          THEN mp]) (simp add: pl)
  from a b l c lower_Date show ?thesis by blast
qed

text \<open>
  Claim C5 as it was stated gives the empty string to the light variant and the missing
  value to the other one. On the values \<open>n/a\<close> and missing, the ALV (light) stage yields
  missing values and the label stage yields empty strings.
\<close>

theorem date_coercion_unparseable_counterexample:
  "alv_dtype_stage sample_lib (Some [(''D'', ''date'')]) dates_in =
     Inr ([text_col ''D'' [Str ''01/01/2022'', Null, Null]],
          [Info (converted_msg ''D'' ''date format MM/DD/YYYY.'')])
   \<and> fst (label_dtype_stage sample_lib None (Some [(''D'', ''date'')]) dates_in) =
     [text_col ''D'' [Str ''01/01/2022'', Str '''', Str '''']]"
  by code_simp

text \<open>
  Whether a value is read depends on its column: after a first value in the US format,
  the sample library reads the column in that format, and \<open>2022-01-01\<close> is not read.
\<close>

lemma date_read_depends_on_column:
  "alv_dtype_stage sample_lib (Some [(''D'', ''date'')]) mixed_dates =
     Inr ([text_col ''D'' [Str ''01/02/2022'', Null]],
          [Info (converted_msg ''D'' ''date format MM/DD/YYYY.'')])
   \<and> fst (label_dtype_stage sample_lib None (Some [(''D'', ''date'')]) mixed_dates) =
     [text_col ''D'' [Str ''01/02/2022'', Str '''']]"
  by code_simp

lemma coerce_alv_unsupported:
  "lower ty \<notin> {''date'', ''int'', ''float'', ''str''} \<Longrightarrow>
     coerce_alv lib ty col = Inr (col, [Warning (unsupported_msg (lower ty) (cname col))])"
  by (simp add: coerce_alv_def)

lemma coerce_label_unsupported:
  "lower ty \<notin> {''date'', ''int'', ''float'', ''str''} \<Longrightarrow>
     coerce_label lib mvf ty col =
       (fillna (case fill_value mvf (cname col) of None \<Rightarrow> Str '''' | Some v \<Rightarrow> v) col, [])"
  by (simp add: coerce_label_def)

text \<open>
  Claim C6 at a failing input. The target type \<open>bool\<close> of column \<open>A\<close> is none of the four
  supported ones. The label stage fills the missing value of \<open>A\<close> with the empty string
  and logs nothing for \<open>A\<close>; its only warning comes after the loop and names the last
  pair, the supported type \<open>str\<close> of column \<open>B\<close>. The ALV stage, on the same input, leaves
  \<open>A\<close> as it was and logs the warning for \<open>A\<close>.
\<close>

theorem label_stage_unsupported_type_run:
  "lower ''bool'' \<notin> set [''date'', ''int'', ''float'', ''str'']
   \<and> label_dtype_stage sample_lib None (Some [(''A'', ''bool''), (''B'', ''str'')])
        [text_col ''A'' [Str ''x'', Null], text_col ''B'' [Str ''y'', Str ''z'']]
      = ([text_col ''A'' [Str ''x'', Str ''''], text_col ''B'' [Str ''y'', Str ''z'']],
         [Info (converted_msg ''B'' ''string.''), Warning (unsupported_msg ''str'' ''B'')])
   \<and> alv_dtype_stage sample_lib (Some [(''A'', ''bool''), (''B'', ''str'')])
        [text_col ''A'' [Str ''x'', Null], text_col ''B'' [Str ''y'', Str ''z'']]
      = Inr ([text_col ''A'' [Str ''x'', Null], text_col ''B'' [Str ''y'', Str ''z'']],
             [Warning (unsupported_msg ''bool'' ''A''), Info (converted_msg ''B'' ''string.'')])"
  by code_simp



lemma get_col_mem: "get_col df n = Some c \<Longrightarrow> c \<in> set df \<and> cname c = n"
  unfolding get_col_def by (auto simp: find_Some_iff)

lemma get_col_None: "get_col df n = None \<longleftrightarrow> n \<notin> set (map cname df)"
  unfolding get_col_def by (induction df) auto



lemma set_text_refuses:
  assumes "get_col df nm = Some c0" and "dtype c0 = Nullable_Int64"
  shows "set_text df i nm s = Inl TypeError"
proof -
  have "c0 \<in> set df \<and> cname c0 = nm"
    using assms(1) by (rule get_col_mem)
  with assms(2) have "list_ex (\<lambda>c. cname c = nm \<and> dtype c = Nullable_Int64) df"
    by (auto simp: list_ex_iff)
  then show ?thesis by (simp add: set_text_def)
qed



lemma total_sentinel_refused:
  assumes "\<not> empty_frame df" and "get_col df dc = Some c0" and "dtype c0 = Nullable_Int64"
    and "isna (at df (nrows df - 1) dc) \<or> at df (nrows df - 1) dc = Str ''''"
  shows "total_sentinel (Some dc) df = Inl TypeError"
proof -
  have "dc \<in> set (map cname df)"
    using assms(2) get_col_mem by force
  then show ?thesis
    using assms set_text_refuses [OF assms(2,3)] by (simp add: total_sentinel_def Let_def)
qed



section \<open>Properties of the spreadsheet merger\<close>

















text \<open>
  In a workbook that has the style registered already, as a saved one has after a first
  call, the step leaves the freshly written date cells on \<open>Normal\<close>; and without date
  columns it registers nothing.
\<close>

lemma apply_date_style_other_runs:
  "apply_date_style [''Date''] dated_orders ([normal_style, date_style], written_rows dated_orders)
     = Inr ([normal_style, date_style], written_rows dated_orders)
   \<and> apply_date_style [] dated_orders (registered book, written_rows dated_orders)
     = Inr ([normal_style], written_rows dated_orders)
   \<and> apply_date_style [''Date''] dated_orders
        ([normal_style, \<lparr>sname = ''mmddyyyy'', number_format = ''0.00''\<rparr>], written_rows dated_orders)
     = Inl ValueError"
  by code_simp

lemma assign_one:
  assumes "distinct (map cname df)" and "\<And>c. cname (f c) = cname c"
  shows "(case get_col df n of None \<Rightarrow> df | Some c \<Rightarrow> set_col df n (f c))
         = map (\<lambda>c. if cname c = n then f c else c) df"
proof (cases "get_col df n")
  case None
  then have "n \<notin> set (map cname df)" by (simp add: get_col_None)
  then have "map (\<lambda>c. if cname c = n then f c else c) df = df"
    by (intro map_idI) auto
  with None show ?thesis by simp
next
  case (Some c)
  then have c: "c \<in> set df" "cname c = n" using get_col_mem by blast+
  have inj: "inj_on cname (set df)"
    using assms(1) by (simp add: distinct_map)
  have "set_col df n (f c) = map (\<lambda>x. if cname x = n then f x else x) df"
    unfolding set_col_def
  proof (rule map_cong [OF refl])
    fix x assume x: "x \<in> set df"
    show "(if cname x = n then (f c)\<lparr>cname := n\<rparr> else x) = (if cname x = n then f x else x)"
    proof (cases "cname x = n")
      case True
      with x c inj have "x = c" by (auto dest: inj_onD)
      moreover have "(f c)\<lparr>cname := n\<rparr> = f c"
        using assms(2) [of c] c(2) by (metis column.surjective column.update_convs(1))
      ultimately show ?thesis using True by simp
    next
      case False
      then show ?thesis by simp
    qed
  qed
  with Some show ?thesis by simp
qed

lemma assign_each_map:
  assumes "distinct (map cname df)" and "distinct ns" and "\<And>c. cname (f c) = cname c"
  shows "assign_each f ns df = map (\<lambda>c. if cname c \<in> set ns then f c else c) df"
  using assms(1,2)
proof (induction ns arbitrary: df)
  case Nil
  then show ?case by (simp add: assign_each_def)
next
  case (Cons n ns)
  let ?d = "map (\<lambda>c. if cname c = n then f c else c) df"
  have names: "map cname ?d = map cname df"
    using assms(3) by (induction df) auto
  have dd: "distinct (map cname ?d)"
    unfolding names by (rule Cons.prems(1))
  have dn: "distinct ns"
    using Cons.prems(2) by simp
  have "assign_each f (n # ns) df = assign_each f ns ?d"
    using assign_one [OF Cons.prems(1) assms(3), of n] by (simp add: assign_each_def)
  also have "\<dots> = map (\<lambda>c. if cname c \<in> set ns then f c else c) ?d"
    by (rule Cons.IH [OF dd dn])
  also have "\<dots> = map (\<lambda>c. if cname c \<in> set (n # ns) then f c else c) df"
    using Cons.prems(2) assms(3) by auto
  finally show ?case .
qed

lemma to_numeric_ignore_cname: "cname (to_numeric_ignore lib c) = cname c"
  by (simp add: to_numeric_ignore_def Let_def)

lemma to_date_cname: "cname (to_date lib c) = cname c"
  by (simp add: to_date_def)

lemma numeric_pass_map:
  assumes "distinct (map cname df)"
  shows "numeric_pass lib df = map (\<lambda>c. if dtype c = Object then to_numeric_ignore lib c else c) df"
proof -
  let ?ns = "map cname (filter (\<lambda>c. dtype c = Object) df)"
  have d: "distinct ?ns"
    using assms by (simp add: distinct_map_filter)
  have inj: "inj_on cname (set df)"
    using assms by (simp add: distinct_map)
  have "numeric_pass lib df = map (\<lambda>c. if cname c \<in> set ?ns then to_numeric_ignore lib c else c) df"
    unfolding numeric_pass_def
    by (rule assign_each_map [OF assms d]) (rule to_numeric_ignore_cname)
  also have "\<dots> = map (\<lambda>c. if dtype c = Object then to_numeric_ignore lib c else c) df"
  proof (rule map_cong [OF refl])
    fix c assume c: "c \<in> set df"
    have "cname c \<in> set ?ns \<longleftrightarrow> dtype c = Object"
      using c inj by (auto dest: inj_onD)
    then show "(if cname c \<in> set ?ns then to_numeric_ignore lib c else c)
        = (if dtype c = Object then to_numeric_ignore lib c else c)"
      by simp
  qed
  finally show ?thesis .
qed

lemma conversions_map:
  assumes "distinct (map cname df)" and "distinct dcs"
  shows "date_pass lib dcs (numeric_pass lib df) =
     map (\<lambda>c. let c1 = (if dtype c = Object then to_numeric_ignore lib c else c)
               in if cname c \<in> set dcs then to_date lib c1 else c1) df"
proof -
  let ?n = "map (\<lambda>c. if dtype c = Object then to_numeric_ignore lib c else c) df"
  have names: "map cname ?n = map cname df"
    by (induction df) (auto simp: to_numeric_ignore_cname)
  have dd: "distinct (map cname ?n)"
    unfolding names by (rule assms(1))
  have "date_pass lib dcs ?n = map (\<lambda>c. if cname c \<in> set dcs then to_date lib c else c) ?n"
    unfolding date_pass_def
    by (rule assign_each_map [OF dd assms(2)]) (rule to_date_cname)
  then show ?thesis
    by (simp add: numeric_pass_map [OF assms(1)] Let_def to_numeric_ignore_cname)
qed

text \<open>
  Claim C9. After a call, whatever it returns, the frame behind the reference that the
  caller passed (or behind \<open>none_df\<close> when \<open>df\<close> is \<open>None\<close>) is the result of the two
  conversion passes on the frame it held, and no other frame of the store has changed.
  For distinct column labels, the passes replace every column of dtype \<open>object\<close> by its
  numeric conversion and then every listed date column by its calendar dates.
\<close>

theorem update_excel_mutates_caller_frame:
  assumes "df = Some r \<or> (df = None \<and> none_df = Some r)"
  shows "(let dcs = (case date_columns of None \<Rightarrow> [] | Some l \<Rightarrow> l);
              st' = fst (update_excel_with_sap_data lib st files df EXCEL_FILE_PATH SHEET_NAME
                           date_columns none_df)
          in st' r = date_pass lib dcs (numeric_pass lib (st r))
             \<and> (\<forall>r'. r' \<noteq> r \<longrightarrow> st' r' = st r')
             \<and> (distinct (map cname (st r)) \<and> distinct dcs \<longrightarrow>
                  st' r = map (\<lambda>c. let c1 = (if dtype c = Object then to_numeric_ignore lib c else c)
                                    in if cname c \<in> set dcs then to_date lib c1 else c1) (st r)))"
proof -
  have "(case df of Some r \<Rightarrow> Some r | None \<Rightarrow> none_df) = Some r"
    using assms by auto
  then show ?thesis
    unfolding update_excel_with_sap_data_def Let_def
    by (auto simp: conversions_map [unfolded Let_def] split: option.splits prod.splits sum.splits)
qed

text \<open>
  The statement of C9 on a frame of texts: after the call, with the workbook present or
  absent, the caller's frame holds numbers and dates and is not the frame it supplied.
\<close>

theorem update_excel_mutates_caller_frame_witness:
  "fst (update_excel_with_sap_data sample_lib caller_store [''book.xlsx'' \<mapsto> book] (Some 7)
          ''book.xlsx'' ''Data'' (Some [''Date'']) None) 7 = dated_orders
   \<and> fst (update_excel_with_sap_data sample_lib caller_store [''book.xlsx'' \<mapsto> book] (Some 7)
          ''missing.xlsx'' ''Data'' (Some [''Date'']) None) 7 = dated_orders
   \<and> caller_store 7 = orders
   \<and> dated_orders \<noteq> orders
   \<and> fst (update_excel_with_sap_data sample_lib caller_store [''book.xlsx'' \<mapsto> book] (Some 7)
          ''book.xlsx'' ''Data'' (Some [''Date'']) None) 3 = caller_store 3"
proof -
  have conv: "date_pass sample_lib [''Date''] (numeric_pass sample_lib (caller_store 7)) = dated_orders"
    by code_simp
  have ne: "dated_orders \<noteq> orders"
    by code_simp
  have o: "caller_store 7 = orders"
    by (simp add: caller_store_def)
  note t1 = update_excel_mutates_caller_frame [of "Some 7" 7 None "Some [''Date'']" sample_lib
      caller_store "[''book.xlsx'' \<mapsto> book]" "''book.xlsx''" "''Data''", unfolded Let_def]
  note t2 = update_excel_mutates_caller_frame [of "Some 7" 7 None "Some [''Date'']" sample_lib
      caller_store "[''book.xlsx'' \<mapsto> book]" "''missing.xlsx''" "''Data''", unfolded Let_def]
  show ?thesis
    using t1 t2 conv ne o by simp
qed

end
